theory Spec2Isabelle
  imports Main "HOL-Library.Word"
begin

section \<open>Data model of \<open>example/a.c\<close>\<close>

text \<open>
  The C type \<open>int\<close> is a 32-bit two's complement integer. It is embedded as \<open>32 word\<close>:
  \<open>+\<close> and \<open>*\<close> wrap around modulo \<open>2 ^ 32\<close>, \<open>sint\<close> reads the signed value, and the
  comparison \<open>x > 1000\<close> of the source is the signed comparison \<open>1000 <s x\<close>.
  (ISO C leaves signed overflow undefined; the embedding fixes the wrap-around reading
  that the specification itself uses when it speaks of results modulo \<open>2 ^ 32\<close>.)
\<close>

type_synonym c_int = "32 word"

text \<open>
  The functions defined in the translation unit, as the values a pointer of type
  \<open>int (*)(int)\<close> can take here.
\<close>

datatype fn_sym =
    Sym_a_inline_static_func
  | Sym_a_func
  | Sym_a_static_func2
  | Sym_main_func

text \<open>
  Modelled from the spec: \<open>struct AA\<close> is declared in the header \<open>a.h\<close>, which is not
  available. The specification describes it as a single struct holding a function
  pointer, and the initialiser in \<open>a.c\<close> names its one field \<open>func\<close>.
\<close>

record AA =
  func :: fn_sym

text \<open>
  The global \<open>aa_\<close> with its initialiser \<open>{ .func = a_inline_static_func }\<close>. It is the
  whole global state of the translation unit. (An Isabelle name cannot end in an
  underscore, so the initial value of \<open>aa_\<close> is called \<open>aa_init\<close>.)
\<close>

definition aa_init :: AA where
  "aa_init = \<lparr> func = Sym_a_inline_static_func \<rparr>"

section \<open>The functions\<close>

text \<open>
  Every function takes the global state and returns its result together with the state
  it leaves behind, so that what a call does to \<open>aa_\<close> is part of the model.
\<close>

definition a_inline_static_func :: "c_int \<Rightarrow> AA \<Rightarrow> c_int \<times> AA" where
  "a_inline_static_func x s =
     (if 1000 <s x then (x, s)
      else (x * x, s))"

definition a_func :: "c_int \<Rightarrow> AA \<Rightarrow> c_int \<times> AA" where
  "a_func x s =
     (if 1000 <s x then (x, s)
      else a_inline_static_func x s)"

definition a_static_func2 :: "c_int \<Rightarrow> AA \<Rightarrow> c_int \<times> AA" where
  "a_static_func2 x s =
     (let (x', s') = a_func (x + x) s
      in a_inline_static_func x' s')"

definition main_func :: "c_int \<Rightarrow> AA \<Rightarrow> c_int \<times> AA" where
  "main_func x s = a_func (x + x) s"

section \<open>The transform on unbounded integers\<close>

text \<open>
  The specification's wording of the logic, on mathematical integers: if \<open>x\<close> exceeds
  1000 return \<open>x\<close> unchanged, otherwise return \<open>x\<close> multiplied by itself. The two callers
  double the input first. These are the exact values against which the 32-bit results
  are compared when overflow is at stake.
\<close>

definition transform_exact :: "int \<Rightarrow> int" where
  "transform_exact x = (if x > 1000 then x else x * x)"

definition main_func_exact :: "int \<Rightarrow> int" where
  "main_func_exact x = transform_exact (x + x)"

definition a_static_func2_exact :: "int \<Rightarrow> int" where
  "a_static_func2_exact x = transform_exact (transform_exact (x + x))"

section \<open>Auxiliary facts\<close>

text \<open>
  Signed reading of doubling and squaring: where the exact value fits in 32 bits the
  machine result is the exact one, and a square of a value below \<open>- 46340\<close> does not fit.
\<close>

lemma sint_double:
  "- 1073741824 \<le> sint (x :: c_int) \<Longrightarrow> sint x < 1073741824 \<Longrightarrow> sint (x + x) = sint x + sint x"
  by (simp add: sint_word_ariths signed_take_bit_int_eq_self)

lemma sq_bound:
  fixes k :: int
  assumes "- 46340 \<le> k" "k \<le> 46340"
  shows "k * k \<le> 2147395600"
proof -
  have "\<bar>k\<bar> * \<bar>k\<bar> \<le> 46340 * 46340"
    using assms by (intro mult_mono) auto
  then show ?thesis by (simp add: abs_mult_self_eq)
qed

lemma sint_square:
  assumes "- 46340 \<le> sint (x :: c_int)" "sint x \<le> 46340"
  shows "sint (x * x) = sint x * sint x"
proof -
  have hi: "sint x * sint x \<le> 2147395600" using assms by (rule sq_bound)
  have lo: "0 \<le> sint x * sint x" by simp
  have "signed_take_bit 31 (sint x * sint x) = sint x * sint x"
  proof (rule signed_take_bit_int_eq_self)
    have "- 2147483648 \<le> sint x * sint x" using lo by linarith
    then show "- (2 ^ 31) \<le> sint x * sint x" by simp
    show "sint x * sint x < 2 ^ 31" using hi by simp
  qed
  then show ?thesis
    by (simp add: sint_word_ariths)
qed

lemma sint_square_overflow:
  assumes "sint (x :: c_int) \<le> - 46341"
  shows "sint (x * x) \<noteq> sint x * sint x"
proof -
  have "46341 * 46341 \<le> (- sint x) * (- sint x)"
    using assms by (intro mult_mono) auto
  then have "2147483648 \<le> sint x * sint x" by simp
  moreover have "sint (x * x) < 2147483648"
    using sint_lt [of "x * x"] by simp
  ultimately show ?thesis by linarith
qed

lemma transform_exact_nonneg: "0 \<le> transform_exact k"
  by (simp add: transform_exact_def)

lemma a_inline_static_func_exact:
  assumes "- 46340 \<le> sint x"
  shows "sint (fst (a_inline_static_func x s)) = transform_exact (sint x)"
proof (cases "1000 <s x")
  case True
  then show ?thesis
    by (simp add: a_inline_static_func_def transform_exact_def word_sless_alt)
next
  case False
  then have "sint x \<le> 1000"
    by (simp add: word_sless_alt)
  then have "sint (x * x) = sint x * sint x"
    using assms by (intro sint_square) linarith+
  with False show ?thesis
    by (simp add: a_inline_static_func_def transform_exact_def word_sless_alt)
qed

lemma a_func_exact:
  "- 46340 \<le> sint x \<Longrightarrow> sint (fst (a_func x s)) = transform_exact (sint x)"
  using a_inline_static_func_exact [of x s]
  by (simp add: a_func_def transform_exact_def word_sless_alt)

lemma main_func_exact_holds:
  assumes "- 23170 \<le> sint x" "sint x < 1073741824"
  shows "sint (fst (main_func x s)) = main_func_exact (sint x)"
proof -
  have d: "sint (x + x) = sint x + sint x"
    using assms by (intro sint_double) linarith+
  then have "- 46340 \<le> sint (x + x)"
    using assms by linarith
  then have "sint (fst (a_func (x + x) s)) = transform_exact (sint (x + x))"
    by (rule a_func_exact)
  then show ?thesis
    unfolding main_func_def main_func_exact_def d .
qed

lemma a_static_func2_exact_holds:
  assumes "- 23170 \<le> sint x" "sint x < 1073741824"
  shows "sint (fst (a_static_func2 x s)) = a_static_func2_exact (sint x)"
proof -
  obtain y s' where call: "a_func (x + x) s = (y, s')"
    by (cases "a_func (x + x) s")
  have "sint (fst (a_func (x + x) s)) = transform_exact (sint x + sint x)"
    using main_func_exact_holds [OF assms, of s]
    unfolding main_func_def main_func_exact_def .
  then have y: "sint y = transform_exact (sint x + sint x)"
    unfolding call fst_conv .
  then have "0 \<le> sint y"
    by (simp add: transform_exact_nonneg)
  then have "- 46340 \<le> sint y" by linarith
  then have "sint (fst (a_inline_static_func y s')) = transform_exact (sint y)"
    by (rule a_inline_static_func_exact)
  then show ?thesis
    by (simp only: a_static_func2_def a_static_func2_exact_def call Let_def prod.case y)
qed

lemma a_inline_static_func_exact_iff:
  "sint (fst (a_inline_static_func x s)) = transform_exact (sint x) \<longleftrightarrow> - 46340 \<le> sint x"
proof
  assume eq: "sint (fst (a_inline_static_func x s)) = transform_exact (sint x)"
  show "- 46340 \<le> sint x"
  proof (rule ccontr)
    assume "\<not> - 46340 \<le> sint x"
    then have low: "sint x \<le> - 46341" by linarith
    then have "sint (x * x) \<noteq> sint x * sint x"
      by (rule sint_square_overflow)
    moreover have "\<not> 1000 <s x"
      using low by (simp add: word_sless_alt)
    ultimately show False
      using eq low by (simp add: a_inline_static_func_def transform_exact_def)
  qed
next
  assume "- 46340 \<le> sint x"
  then show "sint (fst (a_inline_static_func x s)) = transform_exact (sint x)"
    by (rule a_inline_static_func_exact)
qed

section \<open>Claims\<close>

text \<open>
  C1. For every integer \<open>x\<close> with \<open>x > 1000\<close> the transform returns \<open>x\<close> unchanged:
  \<open>a_func(x) = x\<close> and \<open>a_inline_static_func(x) = x\<close>.
\<close>

theorem above_threshold_unchanged:
  "1000 <s x \<Longrightarrow> a_func x s = (x, s) \<and> a_inline_static_func x s = (x, s)"
  by (simp add: a_func_def a_inline_static_func_def)

theorem above_threshold_unchanged_witness:
  "1000 <s (1001 :: c_int) \<and> a_func 1001 aa_init = (1001, aa_init)
     \<and> a_inline_static_func 1001 aa_init = (1001, aa_init)"
  using above_threshold_unchanged [of 1001 aa_init] by simp

text \<open>
  C2. For every integer \<open>x\<close> with \<open>0 \<le> x \<le> 1000\<close> the transform returns \<open>x\<close> multiplied by
  itself: \<open>a_func(x) = x * x\<close> and \<open>a_inline_static_func(x) = x * x\<close>. The product does not
  wrap: its signed value is the exact square.
\<close>

theorem within_range_squares:
  "0 \<le>s x \<Longrightarrow> x \<le>s 1000 \<Longrightarrow>
     a_func x s = (x * x, s) \<and> a_inline_static_func x s = (x * x, s)
     \<and> sint (x * x) = sint x * sint x"
proof -
  assume "0 \<le>s x" and "x \<le>s 1000"
  then have r: "0 \<le> sint x" "sint x \<le> 1000"
    by (simp_all add: word_sle_eq)
  then have "\<not> 1000 <s x"
    by (simp add: word_sless_alt)
  moreover have "sint (x * x) = sint x * sint x"
    using r by (intro sint_square) linarith+
  ultimately show ?thesis
    by (simp add: a_func_def a_inline_static_func_def)
qed

theorem within_range_squares_witness:
  "0 \<le>s (1000 :: c_int) \<and> (1000 :: c_int) \<le>s 1000
     \<and> a_func 1000 aa_init = (1000000, aa_init)
     \<and> a_inline_static_func 1000 aa_init = (1000000, aa_init)
     \<and> sint (1000000 :: c_int) = 1000 * 1000"
  using within_range_squares [of 1000 aa_init] by (simp add: word_sle_eq)

text \<open>
  C3 (amended). For input 2000 the transform itself returns 2000 unchanged; through the
  doubling callers the input is first doubled to 4000, and 4000 is what \<open>main_func\<close> and
  \<open>a_static_func2\<close> return.
\<close>

theorem input_2000:
  "a_func 2000 s = (2000, s) \<and> a_inline_static_func 2000 s = (2000, s)
     \<and> main_func 2000 s = (4000, s) \<and> a_static_func2 2000 s = (4000, s)"
  by (simp add: main_func_def a_static_func2_def a_func_def a_inline_static_func_def)

text \<open>
  The claim as stated, \<open>main_func(2000) = 2000\<close> and \<open>a_static_func2(2000) = 2000\<close>, fails.
\<close>

theorem doubling_callers_2000_counterexample:
  "\<not> (fst (main_func 2000 aa_init) = 2000 \<and> fst (a_static_func2 2000 aa_init) = 2000)"
  by (simp add: main_func_def a_static_func2_def a_func_def a_inline_static_func_def)

text \<open>
  C4. For input 5 the doubling caller first doubles 5 to 10 and the transform then
  squares it: \<open>main_func(5) = 100\<close>.
\<close>

theorem main_func_5:
  "(5 :: c_int) + 5 = 10 \<and> a_func 10 s = (100, s) \<and> main_func 5 s = (100, s)"
  by (simp add: main_func_def a_func_def a_inline_static_func_def)

text \<open>
  C5. The wrappers double the input before passing it on: \<open>main_func(x) = a_func(x + x)\<close>
  and \<open>a_static_func2(x) = a_inline_static_func(a_func(x + x))\<close>, for every \<open>x\<close>.
\<close>

theorem wrappers_double:
  "main_func x s = a_func (x + x) s
     \<and> a_static_func2 x s = a_inline_static_func (fst (a_func (x + x) s)) (snd (a_func (x + x) s))"
  by (simp add: main_func_def a_static_func2_def case_prod_beta)

text \<open>
  C6 (amended). For every integer \<open>x\<close> in \<open>[0, 1000]\<close> the transform, with its input doubled
  by \<open>main_func\<close> or \<open>a_static_func2\<close>, does not overflow 32-bit signed arithmetic: the
  computed result is the exact mathematical value. An input whose doubled value is
  squared with overflow lies outside that range, for instance \<open>x = - 30000\<close>: it is doubled
  to \<open>- 60000\<close>, which is not above 1000 and is squared. The exact square is 3600000000;
  \<open>main_func\<close> returns the wrapped product, whose signed value is \<open>- 694967296\<close>, and
  \<open>a_static_func2\<close> squares that once more and returns the signed value \<open>- 1055916032\<close>,
  where the exact value is 3600000000.
\<close>

theorem doubled_no_overflow_in_range:
  "(0 \<le>s x \<and> x \<le>s 1000 \<longrightarrow>
       sint (fst (main_func x s)) = main_func_exact (sint x)
     \<and> sint (fst (a_static_func2 x s)) = a_static_func2_exact (sint x))
   \<and> (- 30000 :: c_int) + - 30000 = - 60000
   \<and> main_func (- 30000) s = (- 60000 * - 60000, s)
   \<and> sint (- 60000 * - 60000 :: c_int) = - 694967296
   \<and> sint (fst (main_func (- 30000) s)) = - 694967296
   \<and> main_func_exact (sint (- 30000 :: c_int)) = 3600000000
   \<and> sint (fst (main_func (- 30000) s)) \<noteq> main_func_exact (sint (- 30000 :: c_int))
   \<and> a_static_func2 (- 30000) s = (- 60000 * - 60000 * (- 60000 * - 60000), s)
   \<and> sint (- 60000 * - 60000 * (- 60000 * - 60000) :: c_int) = - 1055916032
   \<and> sint (fst (a_static_func2 (- 30000) s)) = - 1055916032
   \<and> a_static_func2_exact (sint (- 30000 :: c_int)) = 3600000000
   \<and> sint (fst (a_static_func2 (- 30000) s)) \<noteq> a_static_func2_exact (sint (- 30000 :: c_int))"
proof (intro conjI impI)
  assume "0 \<le>s x \<and> x \<le>s 1000"
  then have b: "- 23170 \<le> sint x" "sint x < 1073741824"
    by (simp_all add: word_sle_eq)
  show "sint (fst (main_func x s)) = main_func_exact (sint x)"
    using b by (rule main_func_exact_holds)
  show "sint (fst (a_static_func2 x s)) = a_static_func2_exact (sint x)"
    using b by (rule a_static_func2_exact_holds)
next
  show "(- 30000 :: c_int) + - 30000 = - 60000"
    by simp
next
  show "main_func (- 30000) s = (- 60000 * - 60000, s)"
    by (simp add: main_func_def a_func_def a_inline_static_func_def word_sless_alt)
next
  show "sint (- 60000 * - 60000 :: c_int) = - 694967296"
    by simp
next
  show "sint (fst (main_func (- 30000) s)) = - 694967296"
    by (simp add: main_func_def a_func_def a_inline_static_func_def word_sless_alt)
next
  show "main_func_exact (sint (- 30000 :: c_int)) = 3600000000"
    by (simp add: main_func_exact_def transform_exact_def)
next
  show "sint (fst (main_func (- 30000) s)) \<noteq> main_func_exact (sint (- 30000 :: c_int))"
    by (simp add: main_func_def a_func_def a_inline_static_func_def main_func_exact_def
        transform_exact_def word_sless_alt)
next
  show "a_static_func2 (- 30000) s = (- 60000 * - 60000 * (- 60000 * - 60000), s)"
    by (simp add: a_static_func2_def a_func_def a_inline_static_func_def word_sless_alt)
next
  show "sint (- 60000 * - 60000 * (- 60000 * - 60000) :: c_int) = - 1055916032"
    by simp
next
  show "sint (fst (a_static_func2 (- 30000) s)) = - 1055916032"
    by (simp add: a_static_func2_def a_func_def a_inline_static_func_def word_sless_alt)
next
  show "a_static_func2_exact (sint (- 30000 :: c_int)) = 3600000000"
    by (simp add: a_static_func2_exact_def transform_exact_def)
next
  show "sint (fst (a_static_func2 (- 30000) s)) \<noteq> a_static_func2_exact (sint (- 30000 :: c_int))"
    by (simp add: a_static_func2_def a_func_def a_inline_static_func_def a_static_func2_exact_def
        transform_exact_def word_sless_alt)
qed

theorem doubled_no_overflow_in_range_witness:
  "0 \<le>s (500 :: c_int) \<and> (500 :: c_int) \<le>s 1000
     \<and> sint (fst (main_func 500 aa_init)) = main_func_exact 500
     \<and> sint (fst (a_static_func2 500 aa_init)) = a_static_func2_exact 500"
  using doubled_no_overflow_in_range [of 500 aa_init] by (simp add: word_sle_eq)

text \<open>
  The claim as stated, that some \<open>x\<close> in \<open>[0, 1000]\<close> makes a doubling caller overflow, fails:
  no such \<open>x\<close> exists.
\<close>

theorem doubled_overflow_counterexample:
  "\<not> (\<exists>x :: c_int. 0 \<le>s x \<and> x \<le>s 1000
        \<and> (sint (fst (main_func x aa_init)) \<noteq> main_func_exact (sint x)
           \<or> sint (fst (a_static_func2 x aa_init)) \<noteq> a_static_func2_exact (sint x)))"
proof
  assume "\<exists>x :: c_int. 0 \<le>s x \<and> x \<le>s 1000
        \<and> (sint (fst (main_func x aa_init)) \<noteq> main_func_exact (sint x)
           \<or> sint (fst (a_static_func2 x aa_init)) \<noteq> a_static_func2_exact (sint x))"
  then obtain x :: c_int where r: "0 \<le>s x" "x \<le>s 1000"
    and bad: "sint (fst (main_func x aa_init)) \<noteq> main_func_exact (sint x)
           \<or> sint (fst (a_static_func2 x aa_init)) \<noteq> a_static_func2_exact (sint x)"
    by blast
  from r have b: "- 23170 \<le> sint x" "sint x < 1073741824"
    by (simp_all add: word_sle_eq)
  show False
    using bad main_func_exact_holds [OF b, of aa_init] a_static_func2_exact_holds [OF b, of aa_init]
    by blast
qed

text \<open>
  C7. The computation is stateless. The global \<open>aa_\<close> holds \<open>a_inline_static_func\<close> in its
  field \<open>func\<close> initially; no call changes the global state, so the field keeps its
  value after every call; and the result of each function is the same from any state,
  that is, it depends on the integer argument only.
\<close>

theorem globals_untouched:
  "func aa_init = Sym_a_inline_static_func
     \<and> snd (a_inline_static_func x s) = s \<and> snd (a_func x s) = s
     \<and> snd (a_static_func2 x s) = s \<and> snd (main_func x s) = s
     \<and> fst (a_inline_static_func x s) = fst (a_inline_static_func x s')
     \<and> fst (a_func x s) = fst (a_func x s')
     \<and> fst (a_static_func2 x s) = fst (a_static_func2 x s')
     \<and> fst (main_func x s) = fst (main_func x s')"
  by (simp add: aa_init_def main_func_def a_static_func2_def a_func_def a_inline_static_func_def)

text \<open>
  C8. \<open>a_func\<close> and \<open>a_inline_static_func\<close> are extensionally equal: the guard of \<open>a_func\<close>
  repeats the guard inside \<open>a_inline_static_func\<close>.
\<close>

theorem a_func_eq_inline:
  "a_func x s = a_inline_static_func x s"
  by (simp add: a_func_def a_inline_static_func_def)

text \<open>
  C9. For every integer \<open>x\<close> with \<open>501 \<le> x \<le> 1000\<close>, \<open>main_func(x) = 2 * x\<close>: the doubled
  argument is past the threshold and \<open>a_func\<close> returns it unchanged. The doubling does
  not wrap.
\<close>

theorem main_func_upper_half_doubles:
  "501 \<le>s x \<Longrightarrow> x \<le>s 1000 \<Longrightarrow> main_func x s = (2 * x, s) \<and> sint (2 * x) = 2 * sint x"
proof -
  assume "501 \<le>s x" and "x \<le>s 1000"
  then have r: "501 \<le> sint x" "sint x \<le> 1000"
    by (simp_all add: word_sle_eq)
  then have d: "sint (x + x) = sint x + sint x"
    by (intro sint_double) linarith+
  then have "1000 <s x + x"
    using r by (simp add: word_sless_alt)
  moreover have "x + x = 2 * x" by simp
  ultimately show ?thesis
    using d by (simp add: main_func_def a_func_def)
qed

theorem main_func_upper_half_doubles_witness:
  "501 \<le>s (501 :: c_int) \<and> (501 :: c_int) \<le>s 1000 \<and> main_func 501 aa_init = (1002, aa_init)
     \<and> sint (1002 :: c_int) = 2 * 501"
  using main_func_upper_half_doubles [of 501 aa_init] by simp

text \<open>
  C10. For every integer \<open>x\<close> with \<open>0 \<le> x \<le> 15\<close>, \<open>a_static_func2\<close> squares twice:
  \<open>a_static_func2(x) = ((2 * x) ^ 2) ^ 2 = 16 * x ^ 4\<close>, and the value is exact (nothing wraps).
\<close>

theorem a_static_func2_squares_twice:
  "0 \<le>s x \<Longrightarrow> x \<le>s 15 \<Longrightarrow>
     a_static_func2 x s = (((2 * x) ^ 2) ^ 2, s)
     \<and> ((2 * x) ^ 2) ^ 2 = 16 * x ^ 4
     \<and> sint (16 * x ^ 4) = 16 * sint x ^ 4"
proof -
  assume "0 \<le>s x" and "x \<le>s 15"
  then have r: "0 \<le> sint x" "sint x \<le> 15"
    by (simp_all add: word_sle_eq)
  have d: "sint (x + x) = sint x + sint x"
    using r by (intro sint_double) linarith+
  then have n1: "\<not> 1000 <s x + x"
    using r by (simp add: word_sless_alt)
  have q: "sint ((x + x) * (x + x)) = sint (x + x) * sint (x + x)"
    using r d by (intro sint_square) linarith+
  have "sint (x + x) * sint (x + x) \<le> 30 * 30"
    using r d by (intro mult_mono) linarith+
  then have le: "sint ((x + x) * (x + x)) \<le> 900" "0 \<le> sint ((x + x) * (x + x))"
    using q by simp_all
  then have n2: "\<not> 1000 <s (x + x) * (x + x)"
    by (simp add: word_sless_alt)
  have q2: "sint ((x + x) * (x + x) * ((x + x) * (x + x)))
              = sint ((x + x) * (x + x)) * sint ((x + x) * (x + x))"
    using le by (intro sint_square) linarith+
  have alg: "(x + x) * (x + x) * ((x + x) * (x + x)) = 16 * x ^ 4"
    by (simp add: power4_eq_xxxx algebra_simps)
  have alg': "((2 * x) ^ 2) ^ 2 = 16 * x ^ 4"
    by (simp add: power_mult_distrib)
  have algi: "(sint x + sint x) * (sint x + sint x) * ((sint x + sint x) * (sint x + sint x))
               = 16 * sint x ^ 4"
    by (simp add: power4_eq_xxxx algebra_simps)
  have "a_static_func2 x s = ((x + x) * (x + x) * ((x + x) * (x + x)), s)"
    using n1 n2 by (simp add: a_static_func2_def a_func_def a_inline_static_func_def)
  moreover have "sint (16 * x ^ 4) = 16 * sint x ^ 4"
    using q2 q d algi alg by simp
  ultimately show ?thesis
    using alg alg' by simp
qed

theorem a_static_func2_squares_twice_witness:
  "0 \<le>s (15 :: c_int) \<and> (15 :: c_int) \<le>s 15
     \<and> a_static_func2 15 aa_init = (810000, aa_init)
     \<and> sint (810000 :: c_int) = 16 * 15 ^ 4"
  using a_static_func2_squares_twice [of 15 aa_init] by (simp add: word_sle_eq)

end
